theory Spec2Isabelle
  imports Main "HOL-Library.Char_ord" "HOL-Library.List_Lexorder" "HOL-Library.Sublist"
begin

section \<open>Data model\<close>

text \<open>
  The rows the route handlers and the page exchange. Every field of the TypeScript
  \<^verbatim>\<open>Task\<close> type is kept; nullable strings are options. Strings are compared as
  JavaScript compares them, lexicographically by code unit: the order on \<open>string\<close>
  given by \<open>List_Lexorder\<close> over \<open>Char_ord\<close>. Characters are the 8-bit ones of HOL, so the
  model covers strings of code units below 256.
\<close>

record Task =
  id_t :: string
  title :: string
  notes_t :: "string option"
  project :: string
  status :: string
  due_date :: "string option"
  snoozed_until :: "string option"
  source :: string
  created_at :: string
  updated_at :: string

record Project =
  id_p :: string
  name :: string

text \<open>The store behind \<^verbatim>\<open>db\<close>: the two tables, in storage order.\<close>

record db =
  projects :: "Project list"
  tasks :: "Task list"

section \<open>api-helpers\<close>

datatype body =
    Error string
  | ProjectJson Project
  | ProjectsJson "(string \<times> string \<times> nat) list"
  | TaskJson Task
  | TasksJson "Task list"
  | NoBody

type_synonym response = "body \<times> nat"

definition errorResponse :: "string \<Rightarrow> nat \<Rightarrow> response" where
  "errorResponse message st = (Error message, st)"

definition VALID_STATUSES :: "string list" where
  "VALID_STATUSES = [''pending'', ''in_progress'', ''done'', ''snoozed'']"

text \<open>
  \<^verbatim>\<open>resolveSnooze\<close>. The date \<^verbatim>\<open>new Date().toISOString().split("T")[0]\<close> is the
  parameter \<open>today\<close>.
\<close>

definition resolveSnooze :: "string \<Rightarrow> Task \<Rightarrow> Task" where
  "resolveSnooze today task =
     (if status task = ''snoozed''
         \<and> snoozed_until task \<noteq> None
         \<and> the (snoozed_until task) < today
      then task\<lparr>status := ''pending''\<rparr>
      else task)"

text \<open>
  \<^verbatim>\<open>String.prototype.trim\<close>: the white space and line terminator code units below 256
  are TAB, LF, VT, FF, CR, SP and NBSP.
\<close>

definition is_ws :: "char \<Rightarrow> bool" where
  "is_ws c = (of_char c \<in> {9, 10, 11, 12, 13, 32, 160 :: nat})"

definition trim :: "string \<Rightarrow> string" where
  "trim s = rev (dropWhile is_ws (rev (dropWhile is_ws s)))"

section \<open>Date helpers of the page\<close>

text \<open>
  \<^verbatim>\<open>String(n)\<close> for a natural number and \<^verbatim>\<open>padStart(2, "0")\<close>.
\<close>

fun digits :: "nat \<Rightarrow> string" where
  "digits n =
     (if n < 10 then [''0123456789'' ! n]
      else digits (n div 10) @ [''0123456789'' ! (n mod 10)])"

definition String_of :: "int \<Rightarrow> string" where
  "String_of i = (if i < 0 then CHR ''-'' # digits (nat (- i)) else digits (nat i))"

definition padStart2 :: "string \<Rightarrow> string" where
  "padStart2 s = replicate (2 - length s) CHR ''0'' @ s"

text \<open>
  \<^verbatim>\<open>Number(s)\<close> on the pieces of a date string: surrounding white space is dropped, a
  run of decimal digits is its value and the empty string is 0. Every other string is
  taken as NaN (\<open>None\<close>); JavaScript also reads signs, decimal fractions, exponents,
  \<^verbatim>\<open>Infinity\<close> and the prefixed binary, octal and hexadecimal forms, which the pieces of a
  date printed by \<^verbatim>\<open>localDate\<close> never are.
\<close>

definition digit_val :: "char \<Rightarrow> nat" where
  "digit_val c = of_char c - 48"

definition is_digit :: "char \<Rightarrow> bool" where
  "is_digit c = (48 \<le> (of_char c :: nat) \<and> (of_char c :: nat) \<le> 57)"

definition Number :: "string \<Rightarrow> int option" where
  "Number s =
     (if list_all is_digit (trim s)
      then Some (int (foldl (\<lambda>acc c. 10 * acc + digit_val c) 0 (trim s)))
      else None)"

text \<open>\<^verbatim>\<open>s.split(c)\<close> for a one-character separator.\<close>

fun split_at :: "char \<Rightarrow> string \<Rightarrow> string \<Rightarrow> string list" where
  "split_at c cur [] = [rev cur]"
| "split_at c cur (x # xs) =
     (if x = c then rev cur # split_at c [] xs else split_at c (x # cur) xs)"

definition split :: "char \<Rightarrow> string \<Rightarrow> string list" where
  "split c s = split_at c [] s"

text \<open>
  The \<^verbatim>\<open>Date\<close> object at day granularity. \<^verbatim>\<open>new Date(y, m, d)\<close> is ECMAScript's
  MakeDay: months beyond 0..11 carry into the year, the day of the month counts on from the
  first of that month, and a year in 0..99 means 1900 + year. A date is held as its day
  number since 1970-01-01 in the proleptic Gregorian calendar; the local fields
  \<^verbatim>\<open>getFullYear\<close>, \<^verbatim>\<open>getMonth\<close>, \<^verbatim>\<open>getDate\<close> are read back from it. Local midnight is
  assumed to exist on every day, and the date to lie in the range a \<^verbatim>\<open>Date\<close> holds.
\<close>

definition days_from_civil :: "int \<Rightarrow> int \<Rightarrow> int \<Rightarrow> int" where
  "days_from_civil y m d =
     (let y' = (if m \<le> 2 then y - 1 else y);
          era = y' div 400;
          yoe = y' - era * 400;
          doy = (153 * (if m > 2 then m - 3 else m + 9) + 2) div 5 + d - 1;
          doe = yoe * 365 + yoe div 4 - yoe div 100 + doy
      in era * 146097 + doe - 719468)"

definition civil_from_days :: "int \<Rightarrow> int \<times> int \<times> int" where
  "civil_from_days z =
     (let z' = z + 719468;
          era = z' div 146097;
          doe = z' - era * 146097;
          yoe = (doe - doe div 1460 + doe div 36524 - doe div 146096) div 365;
          doy = doe - (365 * yoe + yoe div 4 - yoe div 100);
          mp = (5 * doy + 2) div 153;
          d = doy - (153 * mp + 2) div 5 + 1;
          m = (if mp < 10 then mp + 3 else mp - 9);
          y = yoe + era * 400
      in (if m \<le> 2 then y + 1 else y, m, d))"

definition Date :: "int \<Rightarrow> int \<Rightarrow> int \<Rightarrow> int" where
  "Date y m d =
     (let yr = (if 0 \<le> y \<and> y \<le> 99 then 1900 + y else y);
          ym = yr + m div 12;
          mn = m mod 12
      in days_from_civil ym (mn + 1) 1 + d - 1)"

definition getFullYear :: "int \<Rightarrow> int" where
  "getFullYear t = fst (civil_from_days t)"

definition getMonth :: "int \<Rightarrow> int" where
  "getMonth t = fst (snd (civil_from_days t)) - 1"

definition getDate :: "int \<Rightarrow> int" where
  "getDate t = snd (snd (civil_from_days t))"

text \<open>\<^verbatim>\<open>[...].join("-")\<close>\<close>

fun join :: "string \<Rightarrow> string list \<Rightarrow> string" where
  "join sep [] = []"
| "join sep [x] = x"
| "join sep (x # y # ys) = x @ sep @ join sep (y # ys)"

text \<open>
  \<^verbatim>\<open>localDate(d)\<close>; an invalid date (\<open>None\<close>) prints \<^verbatim>\<open>NaN\<close> in each field.
\<close>

definition localDate :: "int option \<Rightarrow> string" where
  "localDate d =
     (case d of
        None \<Rightarrow> join ''-'' [''NaN'', ''NaN'', ''NaN'']
      | Some t \<Rightarrow>
          join ''-''
            [String_of (getFullYear t),
             padStart2 (String_of (getMonth t + 1)),
             padStart2 (String_of (getDate t))])"

text \<open>
  \<^verbatim>\<open>shiftDays(base, n)\<close>: a missing or non-numeric piece makes the date invalid.
\<close>

definition shiftDays :: "string \<Rightarrow> int \<Rightarrow> string" where
  "shiftDays base n =
     (case map Number (split CHR ''-'' base) of
        Some y # Some m # Some d # _ \<Rightarrow> localDate (Some (Date y (m - 1) (d + n)))
      | _ \<Rightarrow> localDate None)"

section \<open>The four tabs of the page\<close>

text \<open>
  The filters of \<^verbatim>\<open>UpcomingTab\<close>, \<^verbatim>\<open>ScheduledTab\<close>, \<^verbatim>\<open>CompletedTab\<close> and
  \<^verbatim>\<open>UnscheduledTab\<close>, each as the predicate handed to \<^verbatim>\<open>tasks.filter\<close> and as the list
  it yields. \<^verbatim>\<open>!t.due_date\<close> holds for \<^verbatim>\<open>null\<close> and for the empty string.
\<close>

definition is_overdue :: "string \<Rightarrow> Task \<Rightarrow> bool" where
  "is_overdue today t =
     (status t \<noteq> ''done'' \<and> due_date t \<noteq> None \<and> the (due_date t) < today)"

definition is_dueToday :: "string \<Rightarrow> Task \<Rightarrow> bool" where
  "is_dueToday today t = (status t \<noteq> ''done'' \<and> due_date t = Some today)"

definition is_upcoming :: "string \<Rightarrow> string \<Rightarrow> Task \<Rightarrow> bool" where
  "is_upcoming today todayPlus6 t =
     (status t \<noteq> ''done'' \<and> due_date t \<noteq> None
      \<and> the (due_date t) > today \<and> the (due_date t) \<le> todayPlus6)"

definition is_scheduled :: "string \<Rightarrow> Task \<Rightarrow> bool" where
  "is_scheduled todayPlus7 t =
     (status t \<noteq> ''done'' \<and> due_date t \<noteq> None \<and> the (due_date t) > todayPlus7)"

definition is_completed :: "Task \<Rightarrow> bool" where
  "is_completed t = (status t = ''done'')"

definition is_unscheduled :: "Task \<Rightarrow> bool" where
  "is_unscheduled t =
     (status t \<noteq> ''done'' \<and> (due_date t = None \<or> due_date t = Some []))"

definition overdue :: "string \<Rightarrow> Task list \<Rightarrow> Task list" where
  "overdue today ts = filter (is_overdue today) ts"

definition dueToday :: "string \<Rightarrow> Task list \<Rightarrow> Task list" where
  "dueToday today ts = filter (is_dueToday today) ts"

definition upcoming :: "string \<Rightarrow> string \<Rightarrow> Task list \<Rightarrow> Task list" where
  "upcoming today todayPlus6 ts = filter (is_upcoming today todayPlus6) ts"

definition scheduled_filtered :: "string \<Rightarrow> Task list \<Rightarrow> Task list" where
  "scheduled_filtered todayPlus7 ts = filter (is_scheduled todayPlus7) ts"

definition completedAll :: "Task list \<Rightarrow> Task list" where
  "completedAll ts = filter is_completed ts"

definition unscheduled :: "Task list \<Rightarrow> Task list" where
  "unscheduled ts = filter is_unscheduled ts"

text \<open>
  \<^verbatim>\<open>Home\<close> computes \<^verbatim>\<open>todayPlus6 = shiftDays(today, 6)\<close> and
  \<^verbatim>\<open>todayPlus7 = shiftDays(today, 7)\<close> and hands them to the tabs. \<open>buckets\<close> lists, in
  the order overdue, due today, upcoming, scheduled, completed, unscheduled, whether the
  task is shown in each section.
\<close>

definition buckets :: "string \<Rightarrow> Task \<Rightarrow> bool list" where
  "buckets today t =
     [is_overdue today t,
      is_dueToday today t,
      is_upcoming today (shiftDays today 6) t,
      is_scheduled (shiftDays today 7) t,
      is_completed t,
      is_unscheduled t]"

definition bucket_count :: "string \<Rightarrow> Task \<Rightarrow> nat" where
  "bucket_count today t = length (filter (\<lambda>b. b) (buckets today t))"

section \<open>The store\<close>

text \<open>
  The Prisma calls the handlers make, as functions on the store. A call that throws returns
  the code of its error. The schema is not among the sources; what it contributes is
  named where it is used.
\<close>

datatype prisma_error = P2002 | P2025

type_synonym 'a query = "db \<Rightarrow> prisma_error + 'a \<times> db"

text \<open>\<^verbatim>\<open>db.project.findUnique({ where: { id } })\<close> and \<^verbatim>\<open>{ where: { name } }\<close>.\<close>

definition db_project_findUnique :: "string \<Rightarrow> db \<Rightarrow> Project option" where
  "db_project_findUnique i s = find (\<lambda>p. id_p p = i) (projects s)"

definition db_project_findUnique_name :: "string \<Rightarrow> db \<Rightarrow> Project option" where
  "db_project_findUnique_name n s = find (\<lambda>p. name p = n) (projects s)"

text \<open>
  Modelled from the spec: the schema's uniqueness constraint on \<^verbatim>\<open>Project.name\<close>
  ("unique across all projects", surfacing as the conflict the handlers catch as
  \<^verbatim>\<open>P2002\<close>), and the generated identifier, which is the parameter \<open>new_id\<close>. The
  call is \<^verbatim>\<open>db.project.create({ data: { name } })\<close>.
\<close>

definition db_project_create :: "string \<Rightarrow> string \<Rightarrow> Project query" where
  "db_project_create new_id n s =
     (if list_ex (\<lambda>p. name p = n) (projects s) then Inl P2002
      else (let p = \<lparr>id_p = new_id, name = n\<rparr>
            in Inr (p, s\<lparr>projects := projects s @ [p]\<rparr>)))"

text \<open>
  \<^verbatim>\<open>db.project.upsert({ where: { name }, update: {}, create: { name } })\<close>: the row of
  that name if there is one, untouched; a new row otherwise.
\<close>

definition db_project_upsert :: "string \<Rightarrow> string \<Rightarrow> Project query" where
  "db_project_upsert new_id n s =
     (case db_project_findUnique_name n s of
        Some p \<Rightarrow> Inr (p, s)
      | None \<Rightarrow> db_project_create new_id n s)"

text \<open>
  \<^verbatim>\<open>db.project.update({ where: { id }, data: { name } })\<close>: \<^verbatim>\<open>P2025\<close> when no row has
  the id, \<^verbatim>\<open>P2002\<close> when another row holds the name.
\<close>

definition db_project_update :: "string \<Rightarrow> string \<Rightarrow> Project query" where
  "db_project_update i n s =
     (case db_project_findUnique i s of
        None \<Rightarrow> Inl P2025
      | Some p \<Rightarrow>
          if list_ex (\<lambda>q. id_p q \<noteq> i \<and> name q = n) (projects s) then Inl P2002
          else Inr (p\<lparr>name := n\<rparr>,
                    s\<lparr>projects := map (\<lambda>q. if id_p q = i then q\<lparr>name := n\<rparr> else q) (projects s)\<rparr>))"


text \<open>
  Modelled from the spec: \<^verbatim>\<open>updated_at\<close> "must be refreshed on every mutating write";
  the time of the write is the parameter \<open>now\<close>. The call is
  \<^verbatim>\<open>db.task.updateMany({ where: { project: old }, data: { project: new } })\<close>; its
  result is the number of rows written.
\<close>

definition db_task_updateMany :: "string \<Rightarrow> string \<Rightarrow> string \<Rightarrow> nat query" where
  "db_task_updateMany now old new s =
     Inr (length (filter (\<lambda>t. project t = old) (tasks s)),
          s\<lparr>tasks := map (\<lambda>t. if project t = old
                                then t\<lparr>project := new, updated_at := now\<rparr> else t) (tasks s)\<rparr>)"

text \<open>
  \<^verbatim>\<open>db.$transaction([q1, q2])\<close>: the queries run in order on the store; when one throws,
  the error is all that is left of the transaction and the store the caller holds is the
  one from before it.
\<close>

definition transaction :: "'a query \<Rightarrow> 'b query \<Rightarrow> ('a \<times> 'b) query" where
  "transaction q1 q2 s =
     (case q1 s of
        Inl e \<Rightarrow> Inl e
      | Inr (a, s1) \<Rightarrow>
          (case q2 s1 of
             Inl e \<Rightarrow> Inl e
           | Inr (b, s2) \<Rightarrow> Inr ((a, b), s2)))"

text \<open>
  Modelled from the spec: the schema's defaults for the columns the handler does not set
  (a fresh \<^verbatim>\<open>id\<close>, the parameter \<open>new_id\<close>; \<^verbatim>\<open>status\<close> pending; no
  \<^verbatim>\<open>snoozed_until\<close>; both timestamps the time of the write). The call is
  \<^verbatim>\<open>db.task.create\<close>.
\<close>

definition db_task_create ::
  "string \<Rightarrow> string \<Rightarrow> string \<Rightarrow> string \<Rightarrow> string option \<Rightarrow> string option \<Rightarrow> string
    \<Rightarrow> Task query" where
  "db_task_create new_id now ti pr no du so s =
     (let t = \<lparr>id_t = new_id, title = ti, notes_t = no, project = pr, status = ''pending'',
                due_date = du, snoozed_until = None, source = so,
                created_at = now, updated_at = now\<rparr>
      in Inr (t, s\<lparr>tasks := tasks s @ [t]\<rparr>))"

text \<open>
  \<^verbatim>\<open>db.task.update({ where: { id }, data })\<close>, the data being the fields of the request
  that are not \<^verbatim>\<open>undefined\<close>. \<^verbatim>\<open>updated_at\<close> is refreshed as in
  \<open>db_task_updateMany\<close> when the data has a field, and left when it has none.
  \<^verbatim>\<open>P2025\<close> when no row has the id. The body's values are strings, as the handler's
  cast to \<^verbatim>\<open>Record<string, string | undefined>\<close> declares them; a JSON \<^verbatim>\<open>null\<close> is
  outside the model.
\<close>

type_synonym json = "string \<rightharpoonup> string"

definition apply_data :: "string \<Rightarrow> json \<Rightarrow> Task \<Rightarrow> Task" where
  "apply_data now b t =
     t\<lparr>title := (case b ''title'' of Some v \<Rightarrow> v | None \<Rightarrow> title t),
       notes_t := (case b ''notes'' of Some v \<Rightarrow> Some v | None \<Rightarrow> notes_t t),
       project := (case b ''project'' of Some v \<Rightarrow> v | None \<Rightarrow> project t),
       status := (case b ''status'' of Some v \<Rightarrow> v | None \<Rightarrow> status t),
       due_date := (case b ''due_date'' of Some v \<Rightarrow> Some v | None \<Rightarrow> due_date t),
       snoozed_until :=
         (case b ''snoozed_until'' of Some v \<Rightarrow> Some v | None \<Rightarrow> snoozed_until t),
       updated_at :=
         (if b ''title'' = None \<and> b ''notes'' = None \<and> b ''project'' = None
             \<and> b ''status'' = None \<and> b ''due_date'' = None \<and> b ''snoozed_until'' = None
          then updated_at t else now)\<rparr>"

definition db_task_findUnique :: "string \<Rightarrow> db \<Rightarrow> Task option" where
  "db_task_findUnique i s = find (\<lambda>t. id_t t = i) (tasks s)"

definition db_task_update :: "string \<Rightarrow> string \<Rightarrow> json \<Rightarrow> Task query" where
  "db_task_update now i b s =
     (case db_task_findUnique i s of
        None \<Rightarrow> Inl P2025
      | Some t \<Rightarrow>
          Inr (apply_data now b t,
               s\<lparr>tasks := map (\<lambda>u. if id_t u = i then apply_data now b u else u) (tasks s)\<rparr>))"

text \<open>
  \<^verbatim>\<open>db.task.findMany({ where, orderBy: { created_at: "desc" } })\<close>; a filter is applied
  when its query parameter is present and not empty. Rows of equal \<^verbatim>\<open>created_at\<close> come
  back in storage order.
\<close>

definition db_task_findMany :: "string option \<Rightarrow> string option \<Rightarrow> db \<Rightarrow> Task list" where
  "db_task_findMany pr st s =
     rev (sort_key created_at
       (rev (filter (\<lambda>t. (case pr of None \<Rightarrow> True | Some p \<Rightarrow> p = [] \<or> project t = p)
                       \<and> (case st of None \<Rightarrow> True | Some x \<Rightarrow> x = [] \<or> status t = x))
               (tasks s))))"

section \<open>Route handlers\<close>

text \<open>
  Each handler takes the parsed request body (\<open>None\<close> when \<^verbatim>\<open>request.json()\<close> throws)
  and the store, and returns the response with the store it leaves behind.
\<close>

text \<open>The double quote of the template literals' messages.\<close>

definition dquote :: char where
  "dquote = CHR 0x22"


text \<open>\<^verbatim>\<open>PATCH /api/projects/[id]\<close>\<close>

definition projects_id_PATCH ::
  "string \<Rightarrow> string \<Rightarrow> json option \<Rightarrow> db \<Rightarrow> response \<times> db" where
  "projects_id_PATCH now i body s =
     (case body of
        None \<Rightarrow> (errorResponse ''Invalid JSON body'' 400, s)
      | Some b \<Rightarrow>
          (case b ''name'' of
             None \<Rightarrow> (errorResponse ''name is required'' 400, s)
           | Some n \<Rightarrow>
               if n = [] \<or> trim n = [] then (errorResponse ''name is required'' 400, s)
               else
                 (case db_project_findUnique i s of
                    None \<Rightarrow> (errorResponse ''Project not found'' 404, s)
                  | Some existing \<Rightarrow>
                      (case transaction (db_project_update i (trim n))
                              (db_task_updateMany now (name existing) (trim n)) s of
                         Inr ((p, _), s') \<Rightarrow> ((ProjectJson p, 200), s')
                       | Inl e \<Rightarrow>
                           if e = P2002
                           then (errorResponse
                                   (''Project name '' @ [dquote] @ n @ [dquote] @ '' already exists'') 409, s)
                           else (errorResponse ''Failed to rename project'' 500, s)))))"




text \<open>\<^verbatim>\<open>POST /api/projects\<close>\<close>

definition projects_POST :: "string \<Rightarrow> json option \<Rightarrow> db \<Rightarrow> response \<times> db" where
  "projects_POST new_id body s =
     (case body of
        None \<Rightarrow> (errorResponse ''Invalid JSON body'' 400, s)
      | Some b \<Rightarrow>
          (case b ''name'' of
             None \<Rightarrow> (errorResponse ''name is required'' 400, s)
           | Some n \<Rightarrow>
               if n = [] \<or> trim n = [] then (errorResponse ''name is required'' 400, s)
               else
                 (case db_project_create new_id (trim n) s of
                    Inr (p, s') \<Rightarrow> ((ProjectJson p, 201), s')
                  | Inl e \<Rightarrow>
                      if e = P2002
                      then (errorResponse (''Project '' @ [dquote] @ n @ [dquote] @ '' already exists'') 409, s)
                      else (errorResponse ''Failed to create project'' 500, s))))"

text \<open>\<^verbatim>\<open>GET /api/tasks\<close>\<close>

definition tasks_GET :: "string \<Rightarrow> string option \<Rightarrow> string option \<Rightarrow> db \<Rightarrow> response" where
  "tasks_GET today pr st s = (TasksJson (map (resolveSnooze today) (db_task_findMany pr st s)), 200)"

text \<open>
  \<^verbatim>\<open>POST /api/tasks\<close>. Two rows may be created, the project's and the task's, so two
  fresh identifiers are taken.
\<close>

definition tasks_POST ::
  "string \<Rightarrow> string \<Rightarrow> string \<Rightarrow> json option \<Rightarrow> db \<Rightarrow> response \<times> db" where
  "tasks_POST new_pid new_tid now body s =
     (case body of
        None \<Rightarrow> (errorResponse ''Invalid JSON body'' 400, s)
      | Some b \<Rightarrow>
          if b ''title'' = None \<or> b ''title'' = Some [] \<or> trim (the (b ''title'')) = []
          then (errorResponse ''title is required'' 400, s)
          else if b ''project'' = None \<or> b ''project'' = Some []
                  \<or> trim (the (b ''project'')) = []
          then (errorResponse ''project is required'' 400, s)
          else
            (case db_project_upsert new_pid (trim (the (b ''project''))) s of
               Inl e \<Rightarrow> (errorResponse ''Failed to create task'' 500, s)
             | Inr (_, s1) \<Rightarrow>
                 (case db_task_create new_tid now
                         (trim (the (b ''title'')))
                         (trim (the (b ''project'')))
                         (b ''notes'')
                         (b ''due_date'')
                         (if b ''source'' = Some ''claude'' then ''claude'' else ''manual'')
                         s1 of
                    Inl e \<Rightarrow> (errorResponse ''Failed to create task'' 500, s1)
                  | Inr (t, s2) \<Rightarrow> ((TaskJson t, 201), s2))))"

text \<open>
  \<^verbatim>\<open>PATCH /api/tasks/[id]\<close>. The upsert runs when \<^verbatim>\<open>project\<close> is truthy (present and
  not the empty string); the update writes \<^verbatim>\<open>project\<close> whenever it is not
  \<^verbatim>\<open>undefined\<close>. The upsert is awaited before the \<^verbatim>\<open>try\<close>; it does not throw on
  this store, and what it created stays when the update then fails. The response carries
  the updated row through \<^verbatim>\<open>resolveSnooze\<close>.
\<close>

definition tasks_id_PATCH ::
  "string \<Rightarrow> string \<Rightarrow> string \<Rightarrow> string \<Rightarrow> json option \<Rightarrow> db \<Rightarrow> response \<times> db" where
  "tasks_id_PATCH new_pid now today i body s =
     (case body of
        None \<Rightarrow> (errorResponse ''Invalid JSON body'' 400, s)
      | Some b \<Rightarrow>
          if b ''status'' \<noteq> None \<and> the (b ''status'') \<notin> set VALID_STATUSES
          then (errorResponse
                  (''Invalid status. Must be one of: '' @ join '', '' VALID_STATUSES) 400, s)
          else
            (let s1 = (if b ''project'' \<noteq> None \<and> b ''project'' \<noteq> Some []
                       then (case db_project_upsert new_pid (the (b ''project'')) s of
                               Inr (_, s') \<Rightarrow> s' | Inl e \<Rightarrow> s)
                       else s)
             in (case db_task_update now i b s1 of
                   Inr (t, s2) \<Rightarrow> ((TaskJson (resolveSnooze today t), 200), s2)
                 | Inl e \<Rightarrow>
                     if e = P2025 then (errorResponse ''Task not found'' 404, s1)
                     else (errorResponse ''Failed to update task'' 500, s1))))"

section \<open>Example data and auxiliary descriptions\<close>

text \<open>A task, snoozed until 28 February 2026 and due on 8 March, in a store of one project.\<close>

definition ex_task :: Task where
  "ex_task =
     \<lparr>id_t = ''t1'', title = ''Ship'', notes_t = None, project = ''Alpha'',
      status = ''snoozed'', due_date = Some ''2026-03-08'',
      snoozed_until = Some ''2026-02-28'', source = ''manual'',
      created_at = ''2026-02-01T09:00:00.000Z'', updated_at = ''2026-02-01T09:00:00.000Z''\<rparr>"

definition ex_db :: db where
  "ex_db = \<lparr>projects = [\<lparr>id_p = ''p1'', name = ''Alpha''\<rparr>], tasks = [ex_task]\<rparr>"

text \<open>A request body for \<^verbatim>\<open>POST /api/tasks\<close>.\<close>

definition ex_body :: json where
  "ex_body = [''title'' \<mapsto> ''Ship it'', ''project'' \<mapsto> '' Alpha '', ''source'' \<mapsto> ''Claude'']"

text \<open>
  The row \<^verbatim>\<open>POST /api/tasks\<close> hands to \<^verbatim>\<open>db.task.create\<close> for a body \<open>b\<close> that
  passes validation, with the columns the store fills in.
\<close>

definition new_task :: "string \<Rightarrow> string \<Rightarrow> json \<Rightarrow> Task" where
  "new_task tid now b =
     \<lparr>id_t = tid, title = trim (the (b ''title'')), notes_t = b ''notes'',
      project = trim (the (b ''project'')), status = ''pending'',
      due_date = b ''due_date'', snoozed_until = None,
      source = (if b ''source'' = Some ''claude'' then ''claude'' else ''manual''),
      created_at = now, updated_at = now\<rparr>"

text \<open>
  A request body naming a project, with a trailing blank, and a store that holds a project
  of that name.
\<close>

definition ex_name :: json where
  "ex_name = [''name'' \<mapsto> ''Gamma '']"

definition ex_db2 :: db where
  "ex_db2 = \<lparr>projects = [\<lparr>id_p = ''p1'', name = ''Alpha''\<rparr>, \<lparr>id_p = ''p2'', name = ''Gamma''\<rparr>],
             tasks = [ex_task]\<rparr>"




text \<open>
  A request body for \<^verbatim>\<open>PATCH /api/tasks/[id]\<close> whose project is the empty string.
\<close>

definition ex_patch :: json where
  "ex_patch = [''project'' \<mapsto> []]"

section \<open>The snooze resolver\<close>

lemma set_findMany: "set (db_task_findMany pr st s) \<subseteq> set (tasks s)"
  by (auto simp: db_task_findMany_def)

text \<open>
  C5. \<^verbatim>\<open>resolveSnooze\<close> returns its argument with at most the status changed: the
  status becomes pending exactly when it was snoozed and \<^verbatim>\<open>snoozed_until\<close> is present
  and strictly before today. A task snoozed until today comes back as it is. The list
  \<^verbatim>\<open>GET /api/tasks\<close> answers with is the list the store finds, each row passed through
  \<^verbatim>\<open>resolveSnooze\<close>, so every task in it is the resolved form of a stored task.
\<close>

theorem resolveSnooze_listTasks:
  "resolveSnooze today t =
     t\<lparr>status := (if status t = ''snoozed'' \<and> (\<exists>d. snoozed_until t = Some d \<and> d < today)
                   then ''pending'' else status t)\<rparr>
   \<and> (snoozed_until t = Some today \<longrightarrow> resolveSnooze today t = t)
   \<and> (\<exists>us. tasks_GET today pr st s = (TasksJson us, 200)
          \<and> us = map (resolveSnooze today) (db_task_findMany pr st s)
          \<and> (\<forall>u \<in> set us. \<exists>t' \<in> set (tasks s). u = resolveSnooze today t'))"
proof (intro conjI)
  show "resolveSnooze today t =
     t\<lparr>status := (if status t = ''snoozed'' \<and> (\<exists>d. snoozed_until t = Some d \<and> d < today)
                   then ''pending'' else status t)\<rparr>"
    by (cases "snoozed_until t") (auto simp: resolveSnooze_def)
  show "snoozed_until t = Some today \<longrightarrow> resolveSnooze today t = t"
    by (simp add: resolveSnooze_def)
  show "\<exists>us. tasks_GET today pr st s = (TasksJson us, 200)
          \<and> us = map (resolveSnooze today) (db_task_findMany pr st s)
          \<and> (\<forall>u \<in> set us. \<exists>t' \<in> set (tasks s). u = resolveSnooze today t')"
    using set_findMany [of pr st s] by (auto simp: tasks_GET_def)
qed

theorem resolveSnooze_listTasks_witness:
  "resolveSnooze ''2026-03-01'' ex_task = ex_task\<lparr>status := ''pending''\<rparr>
   \<and> resolveSnooze ''2026-02-28'' ex_task = ex_task
   \<and> tasks_GET ''2026-03-01'' None None ex_db
       = (TasksJson [ex_task\<lparr>status := ''pending''\<rparr>], 200)"
proof -
  have a: "status ex_task = ''snoozed''" "snoozed_until ex_task = Some ''2026-02-28''"
    by (simp_all add: ex_task_def)
  have b: "db_task_findMany None None ex_db = [ex_task]"
    by (simp add: db_task_findMany_def ex_db_def)
  from resolveSnooze_listTasks [of "''2026-03-01''" ex_task None None ex_db]
  have 1: "resolveSnooze ''2026-03-01'' ex_task = ex_task\<lparr>status := ''pending''\<rparr>"
    and 3: "tasks_GET ''2026-03-01'' None None ex_db
              = (TasksJson [resolveSnooze ''2026-03-01'' ex_task], 200)"
    by (simp_all add: a b)
  from resolveSnooze_listTasks [of "''2026-02-28''" ex_task None None ex_db]
  have 2: "resolveSnooze ''2026-02-28'' ex_task = ex_task"
    by (simp add: a)
  show ?thesis using 1 2 3 by simp
qed

section \<open>Creating tasks\<close>

lemma find_None_list_ex: "(find P xs = None) = (\<not> list_ex P xs)"
  by (auto simp: find_None_iff list_ex_iff)

lemma find_Some_holds: "find P xs = Some x \<Longrightarrow> P x \<and> x \<in> set xs"
  by (auto simp: find_Some_iff)

lemma upsert_eq:
  "db_project_upsert i n s =
     (if list_ex (\<lambda>p. name p = n) (projects s)
      then Inr (the (find (\<lambda>p. name p = n) (projects s)), s)
      else Inr (\<lparr>id_p = i, name = n\<rparr>, s\<lparr>projects := projects s @ [\<lparr>id_p = i, name = n\<rparr>]\<rparr>))"
proof (cases "find (\<lambda>p. name p = n) (projects s)")
  case None
  then have "\<not> list_ex (\<lambda>p. name p = n) (projects s)"
    by (simp add: find_None_list_ex)
  with None show ?thesis
    by (simp add: db_project_upsert_def db_project_findUnique_name_def db_project_create_def
        Let_def)
next
  case (Some p)
  then have "list_ex (\<lambda>p. name p = n) (projects s)"
    using find_None_list_ex [of "\<lambda>p. name p = n" "projects s"] by simp
  with Some show ?thesis
    by (simp add: db_project_upsert_def db_project_findUnique_name_def)
qed

lemma trim_Nil [simp]: "trim [] = []"
  by (simp add: trim_def)

lemma tasks_POST_created:
  assumes "b ''title'' = Some ti" "trim ti \<noteq> []" "b ''project'' = Some pr" "trim pr \<noteq> []"
  shows "tasks_POST pid tid now (Some b) s =
           ((TaskJson (new_task tid now b), 201),
            \<lparr>projects = (if list_ex (\<lambda>p. name p = trim pr) (projects s) then projects s
                          else projects s @ [\<lparr>id_p = pid, name = trim pr\<rparr>]),
             tasks = tasks s @ [new_task tid now b]\<rparr>)"
proof -
  have "ti \<noteq> []" "pr \<noteq> []" using assms by auto
  then show ?thesis using assms
    by (simp add: tasks_POST_def upsert_eq db_task_create_def new_task_def Let_def)
qed

lemma tasks_POST_rejected:
  assumes "tasks_POST pid tid now (Some b) s = ((TaskJson t, c), s')"
  shows "\<exists>ti pr. b ''title'' = Some ti \<and> trim ti \<noteq> [] \<and> b ''project'' = Some pr \<and> trim pr \<noteq> []"
  using assms
  by (auto simp: tasks_POST_def errorResponse_def split: if_splits)

lemma trim_ex: "trim '' Alpha '' = ''Alpha''" "trim ''Ship it'' = ''Ship it''" "trim ''  '' = []"
  by (simp_all add: trim_def is_ws_def)



text \<open>
  C10. Whenever \<^verbatim>\<open>POST /api/tasks\<close> creates a task, the stored task's source is
  \<^verbatim>\<open>claude\<close> if the request's source is the string \<^verbatim>\<open>claude\<close>, and \<^verbatim>\<open>manual\<close>
  for every other value and for a missing one; so it is one of the two.
\<close>

theorem createTask_source:
  "tasks_POST pid tid now (Some b) s = ((TaskJson t, c), s') \<Longrightarrow>
     source t = (if b ''source'' = Some ''claude'' then ''claude'' else ''manual'')
     \<and> (source t = ''claude'' \<or> source t = ''manual'')
     \<and> tasks s' = tasks s @ [t]"
proof -
  assume a: "tasks_POST pid tid now (Some b) s = ((TaskJson t, c), s')"
  from tasks_POST_rejected [OF a] obtain ti pr where
    f: "b ''title'' = Some ti" "trim ti \<noteq> []" "b ''project'' = Some pr" "trim pr \<noteq> []"
    by blast
  from a tasks_POST_created [OF f, of pid tid now s]
  have "t = new_task tid now b" "tasks s' = tasks s @ [new_task tid now b]"
    by auto
  then show ?thesis by (simp add: new_task_def)
qed

theorem createTask_source_witness:
  "(\<exists>t s'. tasks_POST ''p2'' ''t2'' ''n'' (Some ex_body) ex_db = ((TaskJson t, 201), s')
      \<and> source t = ''manual'' \<and> tasks s' = tasks ex_db @ [t])
   \<and> (\<exists>t s'. tasks_POST ''p2'' ''t2'' ''n'' (Some (ex_body(''source'' \<mapsto> ''claude''))) ex_db
               = ((TaskJson t, 201), s')
      \<and> source t = ''claude'' \<and> tasks s' = tasks ex_db @ [t])
   \<and> (\<exists>t s'. tasks_POST ''p2'' ''t2'' ''n'' (Some (ex_body(''source'' := None))) ex_db
               = ((TaskJson t, 201), s')
      \<and> source t = ''manual'' \<and> tasks s' = tasks ex_db @ [t])"
proof -
  have e: "\<And>b. b ''title'' = Some ''Ship it'' \<Longrightarrow> b ''project'' = Some '' Alpha '' \<Longrightarrow>
     \<exists>t s'. tasks_POST ''p2'' ''t2'' ''n'' (Some b) ex_db = ((TaskJson t, 201), s')"
    using tasks_POST_created [of _ "''Ship it''" "'' Alpha ''" "''p2''" "''t2''" "''n''" ex_db]
    by (simp add: trim_ex)
  have 1: "\<exists>t s'. tasks_POST ''p2'' ''t2'' ''n'' (Some ex_body) ex_db = ((TaskJson t, 201), s')
      \<and> source t = ''manual'' \<and> tasks s' = tasks ex_db @ [t]"
    using e [of ex_body] createTask_source [of "''p2''" "''t2''" "''n''" ex_body ex_db]
    by (fastforce simp: ex_body_def)
  have 2: "\<exists>t s'. tasks_POST ''p2'' ''t2'' ''n'' (Some (ex_body(''source'' \<mapsto> ''claude''))) ex_db
               = ((TaskJson t, 201), s')
      \<and> source t = ''claude'' \<and> tasks s' = tasks ex_db @ [t]"
    using e [of "ex_body(''source'' \<mapsto> ''claude'')"]
      createTask_source [of "''p2''" "''t2''" "''n''" "ex_body(''source'' \<mapsto> ''claude'')" ex_db]
    by (fastforce simp: ex_body_def)
  have 3: "\<exists>t s'. tasks_POST ''p2'' ''t2'' ''n'' (Some (ex_body(''source'' := None))) ex_db
               = ((TaskJson t, 201), s')
      \<and> source t = ''manual'' \<and> tasks s' = tasks ex_db @ [t]"
    using e [of "ex_body(''source'' := None)"]
      createTask_source [of "''p2''" "''t2''" "''n''" "ex_body(''source'' := None)" ex_db]
    by (fastforce simp: ex_body_def)
  show ?thesis using 1 2 3 by blast
qed

section \<open>Ensuring a project exists\<close>

lemma find_first: "find P (xs @ [x]) = (case find P xs of Some y \<Rightarrow> Some y | None \<Rightarrow> if P x then Some x else None)"
  by (induction xs) auto

text \<open>
  C9. The upsert by name is idempotent. The first call returns a project of the given
  name that is in the table afterwards; a second call, whatever fresh identifier it is
  offered, returns that same project (so the same id) and leaves the store as the first
  call left it. When a project of the name was already there, the first call changes
  nothing either; when none was, it appends exactly one. The number of projects of that
  name afterwards is the number before, or one if there was none: no duplicate is made.
\<close>

theorem ensureExists_idempotent:
  "\<exists>p s1. db_project_upsert i1 n s = Inr (p, s1)
      \<and> db_project_upsert i2 n s1 = Inr (p, s1)
      \<and> name p = n
      \<and> p \<in> set (projects s1)
      \<and> (list_ex (\<lambda>q. name q = n) (projects s) \<longrightarrow> s1 = s)
      \<and> (\<not> list_ex (\<lambda>q. name q = n) (projects s) \<longrightarrow>
            s1 = s\<lparr>projects := projects s @ [\<lparr>id_p = i1, name = n\<rparr>]\<rparr>)
      \<and> length (filter (\<lambda>q. name q = n) (projects s1))
          = max 1 (length (filter (\<lambda>q. name q = n) (projects s)))"
proof (cases "list_ex (\<lambda>q. name q = n) (projects s)")
  case True
  then obtain p where p: "find (\<lambda>q. name q = n) (projects s) = Some p"
    using find_None_list_ex [of "\<lambda>q. name q = n" "projects s"] by auto
  from find_Some_holds [OF p] have q: "name p = n" "p \<in> set (projects s)" by auto
  then have "filter (\<lambda>q. name q = n) (projects s) \<noteq> []"
    by (auto simp: filter_empty_conv)
  then have "1 \<le> length (filter (\<lambda>q. name q = n) (projects s))"
    by (cases "filter (\<lambda>q. name q = n) (projects s)") auto
  with True p q show ?thesis
    by (simp add: upsert_eq)
next
  case False
  let ?p = "\<lparr>id_p = i1, name = n\<rparr>"
  let ?s1 = "s\<lparr>projects := projects s @ [?p]\<rparr>"
  from False have e: "filter (\<lambda>q. name q = n) (projects s) = []"
    by (auto simp: filter_empty_conv list_ex_iff)
  from False have f: "find (\<lambda>q. name q = n) (projects s) = None"
    by (simp add: find_None_list_ex)
  have 1: "db_project_upsert i1 n s = Inr (?p, ?s1)"
    using False by (simp add: upsert_eq)
  have 2: "db_project_upsert i2 n ?s1 = Inr (?p, ?s1)"
    by (simp add: upsert_eq find_first f)
  show ?thesis using 1 2 False e by simp
qed

theorem ensureExists_idempotent_witness:
  "db_project_upsert ''p2'' ''Alpha'' ex_db = Inr (\<lparr>id_p = ''p1'', name = ''Alpha''\<rparr>, ex_db)
   \<and> db_project_upsert ''p2'' ''Beta'' ex_db
       = Inr (\<lparr>id_p = ''p2'', name = ''Beta''\<rparr>,
              ex_db\<lparr>projects := projects ex_db @ [\<lparr>id_p = ''p2'', name = ''Beta''\<rparr>]\<rparr>)
   \<and> db_project_upsert ''p3'' ''Beta''
         (ex_db\<lparr>projects := projects ex_db @ [\<lparr>id_p = ''p2'', name = ''Beta''\<rparr>]\<rparr>)
       = Inr (\<lparr>id_p = ''p2'', name = ''Beta''\<rparr>,
              ex_db\<lparr>projects := projects ex_db @ [\<lparr>id_p = ''p2'', name = ''Beta''\<rparr>]\<rparr>)"
proof -
  have a: "list_ex (\<lambda>q. name q = ''Alpha'') (projects ex_db)"
          "\<not> list_ex (\<lambda>q. name q = ''Beta'') (projects ex_db)"
    by (simp_all add: ex_db_def)
  from ensureExists_idempotent [of "''p2''" "''Alpha''" ex_db "''p3''"] a(1)
  obtain p where "db_project_upsert ''p2'' ''Alpha'' ex_db = Inr (p, ex_db)"
    "name p = ''Alpha''" "p \<in> set (projects ex_db)"
    by auto
  then have 1: "db_project_upsert ''p2'' ''Alpha'' ex_db
                  = Inr (\<lparr>id_p = ''p1'', name = ''Alpha''\<rparr>, ex_db)"
    by (auto simp: ex_db_def)
  from ensureExists_idempotent [of "''p2''" "''Beta''" ex_db "''p3''"] a(2)
  obtain p where h: "db_project_upsert ''p2'' ''Beta'' ex_db
       = Inr (p, ex_db\<lparr>projects := projects ex_db @ [\<lparr>id_p = ''p2'', name = ''Beta''\<rparr>]\<rparr>)"
    "db_project_upsert ''p3'' ''Beta''
         (ex_db\<lparr>projects := projects ex_db @ [\<lparr>id_p = ''p2'', name = ''Beta''\<rparr>]\<rparr>)
       = Inr (p, ex_db\<lparr>projects := projects ex_db @ [\<lparr>id_p = ''p2'', name = ''Beta''\<rparr>]\<rparr>)"
    "name p = ''Beta''"
    "p \<in> set (projects (ex_db\<lparr>projects := projects ex_db @ [\<lparr>id_p = ''p2'', name = ''Beta''\<rparr>]\<rparr>))"
    by auto
  from h(3,4) have "p = \<lparr>id_p = ''p2'', name = ''Beta''\<rparr>"
    by (auto simp: ex_db_def)
  with h 1 show ?thesis by simp
qed

section \<open>Project name conflicts\<close>

lemma sublist_trim: "sublist (trim n) n"
proof -
  have "sublist (dropWhile is_ws (rev (dropWhile is_ws n))) (rev (dropWhile is_ws n))"
    by (rule sublist_dropWhile)
  then have "sublist (trim n) (dropWhile is_ws n)"
    by (simp add: trim_def sublist_rev_left)
  moreover have "sublist (dropWhile is_ws n) n"
    by (rule sublist_dropWhile)
  ultimately show ?thesis
    by (rule sublist_order.order_trans)
qed

lemma sublist_trim_message: "sublist (trim n) (pre @ n @ post)"
  using sublist_trim [of n] sublist_appendI [of n pre post]
  by (rule sublist_order.order_trans)

lemma projects_POST_conflict:
  assumes "b ''name'' = Some n" "trim n \<noteq> []"
    and "list_ex (\<lambda>p. name p = trim n) (projects s)"
  shows "projects_POST new_id (Some b) s
           = (errorResponse (''Project '' @ [dquote] @ n @ [dquote] @ '' already exists'') 409, s)"
proof -
  from assms(2) have "n \<noteq> []" by auto
  with assms show ?thesis
    by (simp add: projects_POST_def db_project_create_def)
qed

lemma projects_POST_created:
  assumes "b ''name'' = Some n" "trim n \<noteq> []"
    and "\<not> list_ex (\<lambda>p. name p = trim n) (projects s)"
  shows "projects_POST new_id (Some b) s
           = ((ProjectJson \<lparr>id_p = new_id, name = trim n\<rparr>, 201),
              s\<lparr>projects := projects s @ [\<lparr>id_p = new_id, name = trim n\<rparr>]\<rparr>)"
proof -
  from assms(2) have "n \<noteq> []" by auto
  with assms show ?thesis
    by (simp add: projects_POST_def db_project_create_def Let_def)
qed

lemma projects_id_PATCH_conflict:
  assumes "b ''name'' = Some n" "trim n \<noteq> []"
    and "db_project_findUnique i s = Some p"
    and "list_ex (\<lambda>q. id_p q \<noteq> i \<and> name q = trim n) (projects s)"
  shows "projects_id_PATCH now i (Some b) s
           = (errorResponse (''Project name '' @ [dquote] @ n @ [dquote] @ '' already exists'') 409, s)"
proof -
  from assms(2) have "n \<noteq> []" by auto
  with assms show ?thesis
    by (simp add: projects_id_PATCH_def transaction_def db_project_update_def)
qed

text \<open>
  C7. When the trimmed name is already the name of a project, \<^verbatim>\<open>POST /api/projects\<close>
  answers with status 409 and the error body \<^verbatim>\<open>Project "<name>" already exists\<close>, and
  leaves the store as it was. When the trimmed name is the name of another project, a
  rename of an existing project answers 409 with the error body
  \<^verbatim>\<open>Project name "<name>" already exists\<close>, the store unchanged. After a create that
  succeeded, a second create with the same body answers that 409. The message each response
  carries contains the offending (trimmed) name, and each response differs from the generic
  failure of its handler, status 500 with the fixed message.
\<close>

theorem project_name_conflict:
  "(b ''name'' = Some n \<and> trim n \<noteq> [] \<and> list_ex (\<lambda>p. name p = trim n) (projects s) \<longrightarrow>
      projects_POST new_id (Some b) s
        = ((Error (''Project '' @ [dquote] @ n @ [dquote] @ '' already exists''), 409), s))
   \<and> (b ''name'' = Some n \<and> trim n \<noteq> [] \<and> db_project_findUnique i s = Some p
        \<and> list_ex (\<lambda>q. id_p q \<noteq> i \<and> name q = trim n) (projects s) \<longrightarrow>
      projects_id_PATCH now i (Some b) s
        = ((Error (''Project name '' @ [dquote] @ n @ [dquote] @ '' already exists''), 409), s))
   \<and> (b ''name'' = Some n \<and> projects_POST id1 (Some b) s = ((ProjectJson p1, c), s1) \<longrightarrow>
      projects_POST id2 (Some b) s1
        = ((Error (''Project '' @ [dquote] @ n @ [dquote] @ '' already exists''), 409), s1))
   \<and> sublist (trim n) (''Project '' @ [dquote] @ n @ [dquote] @ '' already exists'')
   \<and> sublist (trim n) (''Project name '' @ [dquote] @ n @ [dquote] @ '' already exists'')
   \<and> (Error (''Project '' @ [dquote] @ n @ [dquote] @ '' already exists''), 409 :: nat)
        \<noteq> (Error ''Failed to create project'', 500)
   \<and> (Error (''Project name '' @ [dquote] @ n @ [dquote] @ '' already exists''), 409 :: nat)
        \<noteq> (Error ''Failed to rename project'', 500)
   \<and> errorResponse ''Failed to create project'' 500 = (Error ''Failed to create project'', 500)
   \<and> errorResponse ''Failed to rename project'' 500 = (Error ''Failed to rename project'', 500)"
proof (intro conjI impI)
  assume "b ''name'' = Some n \<and> trim n \<noteq> [] \<and> list_ex (\<lambda>p. name p = trim n) (projects s)"
  then show "projects_POST new_id (Some b) s
        = ((Error (''Project '' @ [dquote] @ n @ [dquote] @ '' already exists''), 409), s)"
    by (simp add: projects_POST_conflict errorResponse_def)
next
  assume "b ''name'' = Some n \<and> trim n \<noteq> [] \<and> db_project_findUnique i s = Some p
        \<and> list_ex (\<lambda>q. id_p q \<noteq> i \<and> name q = trim n) (projects s)"
  then show "projects_id_PATCH now i (Some b) s
        = ((Error (''Project name '' @ [dquote] @ n @ [dquote] @ '' already exists''), 409), s)"
    by (simp add: projects_id_PATCH_conflict errorResponse_def)
next
  assume a: "b ''name'' = Some n \<and> projects_POST id1 (Some b) s = ((ProjectJson p1, c), s1)"
  then have t: "trim n \<noteq> []"
    by (auto simp: projects_POST_def errorResponse_def split: if_splits)
  have "list_ex (\<lambda>p. name p = trim n) (projects s1)"
  proof (cases "list_ex (\<lambda>p. name p = trim n) (projects s)")
    case True
    with a t projects_POST_conflict [of b n s id1] show ?thesis
      by (simp add: errorResponse_def)
  next
    case False
    with a t projects_POST_created [of b n s id1] show ?thesis
      by auto
  qed
  with a t show "projects_POST id2 (Some b) s1
        = ((Error (''Project '' @ [dquote] @ n @ [dquote] @ '' already exists''), 409), s1)"
    by (simp add: projects_POST_conflict errorResponse_def)
next
  show "sublist (trim n) (''Project '' @ [dquote] @ n @ [dquote] @ '' already exists'')"
    using sublist_trim_message [of n "''Project '' @ [dquote]" "[dquote] @ '' already exists''"]
    by simp
  show "sublist (trim n) (''Project name '' @ [dquote] @ n @ [dquote] @ '' already exists'')"
    using sublist_trim_message [of n "''Project name '' @ [dquote]" "[dquote] @ '' already exists''"]
    by simp
qed (simp_all add: errorResponse_def)

lemma trim_Gamma: "trim ''Gamma '' = ''Gamma''"
  by (simp add: trim_def is_ws_def)

theorem project_name_conflict_witness:
  "projects_POST ''p3'' (Some ex_name) ex_db2
     = ((Error (''Project '' @ [dquote] @ ''Gamma '' @ [dquote] @ '' already exists''), 409), ex_db2)
   \<and> projects_id_PATCH ''n'' ''p1'' (Some ex_name) ex_db2
     = ((Error (''Project name '' @ [dquote] @ ''Gamma '' @ [dquote] @ '' already exists''), 409),
        ex_db2)
   \<and> projects_POST ''p2'' (Some ex_name) ex_db = ((ProjectJson \<lparr>id_p = ''p2'', name = ''Gamma''\<rparr>, 201), ex_db2)"
proof -
  have n: "ex_name ''name'' = Some ''Gamma ''" by (simp add: ex_name_def)
  have c: "projects_POST ''p2'' (Some ex_name) ex_db
             = ((ProjectJson \<lparr>id_p = ''p2'', name = ''Gamma''\<rparr>, 201), ex_db2)"
    using n projects_POST_created [of ex_name "''Gamma ''" ex_db "''p2''"]
    by (simp add: trim_Gamma ex_db_def ex_db2_def)
  have f: "db_project_findUnique ''p1'' ex_db2 = Some \<lparr>id_p = ''p1'', name = ''Alpha''\<rparr>"
    by (simp add: db_project_findUnique_def ex_db2_def)
  have l: "list_ex (\<lambda>q. id_p q \<noteq> ''p1'' \<and> name q = ''Gamma'') (projects ex_db2)"
    by (simp add: ex_db2_def)
  from project_name_conflict [where b = ex_name and n = "''Gamma ''" and s = ex_db
      and ?id1.0 = "''p2''" and ?p1.0 = "\<lparr>id_p = ''p2'', name = ''Gamma''\<rparr>" and c = 201
      and ?s1.0 = ex_db2 and ?id2.0 = "''p3''"]
  have 1: "projects_POST ''p3'' (Some ex_name) ex_db2
     = ((Error (''Project '' @ [dquote] @ ''Gamma '' @ [dquote] @ '' already exists''), 409), ex_db2)"
    using n c by simp
  from project_name_conflict [where b = ex_name and n = "''Gamma ''" and s = ex_db2
      and i = "''p1''" and p = "\<lparr>id_p = ''p1'', name = ''Alpha''\<rparr>" and now = "''n''"]
  have 2: "projects_id_PATCH ''n'' ''p1'' (Some ex_name) ex_db2
     = ((Error (''Project name '' @ [dquote] @ ''Gamma '' @ [dquote] @ '' already exists''), 409),
        ex_db2)"
    using n f l by (simp add: trim_Gamma)
  show ?thesis using 1 2 c by simp
qed

section \<open>Renaming a project\<close>






section \<open>Deleting a project\<close>










section \<open>The horizon of the tabs, and updates of a task's project\<close>

lemma split_ex: "split CHR ''-'' ''2026-03-01'' = [''2026'', ''03'', ''01'']"
  by (simp add: split_def)

lemma Number_ex: "Number ''2026'' = Some 2026" "Number ''03'' = Some 3" "Number ''01'' = Some 1"
  by (simp_all add: Number_def trim_def is_ws_def is_digit_def digit_val_def)

lemma Date_ex: "Date 2026 2 7 = 20519" "Date 2026 2 8 = 20520"
  by code_simp+

lemma civil_ex: "civil_from_days 20519 = (2026, 3, 7)" "civil_from_days 20520 = (2026, 3, 8)"
  by code_simp+

lemma digits_ex: "digits 2026 = ''2026''" "digits 3 = ''3''" "digits 7 = ''7''" "digits 8 = ''8''"
  by simp_all

lemma localDate_ex:
  "localDate (Some 20519) = ''2026-03-07''" "localDate (Some 20520) = ''2026-03-08''"
  by (simp_all add: localDate_def getFullYear_def getMonth_def getDate_def civil_ex
      String_of_def padStart2_def digits_ex del: digits.simps)

lemma shiftDays_ex:
  "shiftDays ''2026-03-01'' 6 = ''2026-03-07''" "shiftDays ''2026-03-01'' 7 = ''2026-03-08''"
  by (simp_all add: shiftDays_def split_ex Number_ex Date_ex localDate_ex)

text \<open>
  Whatever the day, a task due exactly on \<^verbatim>\<open>todayPlus7\<close> fails the filter of the
  Scheduled tab, which asks for a later date.
\<close>

lemma not_scheduled_at_todayPlus7:
  "due_date t = Some todayPlus7 \<Longrightarrow> \<not> is_scheduled todayPlus7 t"
  by (simp add: is_scheduled_def)

lemma resolved_ex:
  "resolveSnooze ''2026-03-01'' ex_task = ex_task\<lparr>status := ''pending''\<rparr>"
  by (simp add: resolveSnooze_def ex_task_def)

lemma ex_pending_fields:
  "status (ex_task\<lparr>status := ''pending''\<rparr>) = ''pending''"
  "due_date (ex_task\<lparr>status := ''pending''\<rparr>) = Some ''2026-03-08''"
  by (simp_all add: ex_task_def)

lemma buckets_ex:
  "buckets ''2026-03-01'' (ex_task\<lparr>status := ''pending''\<rparr>)
     = [False, False, False, False, False, False]"
  by (simp add: buckets_def shiftDays_ex ex_pending_fields
      is_overdue_def is_dueToday_def is_upcoming_def is_scheduled_def is_completed_def
      is_unscheduled_def)

text \<open>
  C1. On 1 March 2026 the example task, once its lapsed snooze is resolved, is pending
  and due on \<^verbatim>\<open>shiftDays(today, 7)\<close>, 8 March. None of the six filters accepts it: it
  is shown in no section of any tab, so the six buckets are not a partition.
\<close>

theorem partition_gap_at_todayPlus7:
  "status (resolveSnooze ''2026-03-01'' ex_task) = ''pending''
   \<and> due_date (resolveSnooze ''2026-03-01'' ex_task) = Some (shiftDays ''2026-03-01'' 7)
   \<and> buckets ''2026-03-01'' (resolveSnooze ''2026-03-01'' ex_task)
       = [False, False, False, False, False, False]
   \<and> bucket_count ''2026-03-01'' (resolveSnooze ''2026-03-01'' ex_task) = 0"
  by (simp add: bucket_count_def resolved_ex shiftDays_ex ex_pending_fields buckets_ex)

lemma ex_due_fields:
  "status (ex_task\<lparr>due_date := d\<rparr>) = ''snoozed''"
  "due_date (ex_task\<lparr>due_date := d\<rparr>) = d"
  by (simp_all add: ex_task_def)

text \<open>
  C2. On 1 March 2026 a task that is not done and due on \<^verbatim>\<open>shiftDays(today, 6)\<close> is
  upcoming. Due on \<^verbatim>\<open>shiftDays(today, 7)\<close> it is not upcoming, and it is not scheduled
  either.
\<close>

theorem todayPlus7_not_scheduled:
  "is_upcoming ''2026-03-01'' (shiftDays ''2026-03-01'' 6)
      (ex_task\<lparr>due_date := Some (shiftDays ''2026-03-01'' 6)\<rparr>)
   \<and> \<not> is_upcoming ''2026-03-01'' (shiftDays ''2026-03-01'' 6)
      (ex_task\<lparr>due_date := Some (shiftDays ''2026-03-01'' 7)\<rparr>)
   \<and> \<not> is_scheduled (shiftDays ''2026-03-01'' 7)
      (ex_task\<lparr>due_date := Some (shiftDays ''2026-03-01'' 7)\<rparr>)"
  by (simp add: shiftDays_ex ex_due_fields is_upcoming_def is_scheduled_def)

text \<open>
  A due date that is the empty string passes two filters: it is before today, and it is
  falsy.
\<close>

lemma empty_due_date_in_two_buckets:
  "buckets ''2026-03-01'' (ex_task\<lparr>due_date := Some []\<rparr>)
     = [True, False, False, False, False, True]"
  by (simp add: buckets_def shiftDays_ex ex_due_fields
      is_overdue_def is_dueToday_def is_upcoming_def is_scheduled_def is_completed_def
      is_unscheduled_def)

text \<open>
  C6. \<^verbatim>\<open>PATCH /api/tasks/[id]\<close> with the body \<^verbatim>\<open>{"project": ""}\<close> skips the upsert,
  the empty string being falsy, and still writes the field, which is not
  \<^verbatim>\<open>undefined\<close>: the stored task's project becomes empty, and no project has that
  name.
\<close>

theorem updateTask_empty_project:
  "tasks_id_PATCH ''p2'' ''n'' ''2026-03-01'' ''t1'' (Some ex_patch) ex_db
     = ((TaskJson (ex_task\<lparr>project := [], status := ''pending'', updated_at := ''n''\<rparr>), 200),
        \<lparr>projects = [\<lparr>id_p = ''p1'', name = ''Alpha''\<rparr>],
         tasks = [ex_task\<lparr>project := [], updated_at := ''n''\<rparr>]\<rparr>)"
  by (simp add: tasks_id_PATCH_def ex_patch_def ex_db_def db_task_update_def
      db_task_findUnique_def apply_data_def resolveSnooze_def ex_task_def)

end
